theory Spec2Isabelle
  imports Main
begin

section \<open>Go strings and the library functions the resolver calls\<close>

text \<open>
  A Go \<^verbatim>\<open>string\<close> is a sequence of bytes, modelled as \<^typ>\<open>string\<close> (a list of 8-bit
  characters). \<^verbatim>\<open>strings.TrimSpace\<close> removes leading and trailing Unicode white space.
  The UTF-8 decoder of Go accepts only the shortest encoding of a code point and decodes
  every invalid byte to U+FFFD (not white space), so a white space rune is read at the
  head (or the tail) of a string exactly when one of the byte sequences below is a prefix
  (or a suffix) of it: the six ASCII ones, U+0085, U+00A0, U+1680, U+2000..U+200A, U+2028,
  U+2029, U+202F, U+205F and U+3000.
\<close>

definition space_encodings :: "string list" where
  "space_encodings =
     [[CHR 0x09], [CHR 0x0A], [CHR 0x0B], [CHR 0x0C], [CHR 0x0D], [CHR 0x20],
      [CHR 0xC2, CHR 0x85], [CHR 0xC2, CHR 0xA0], [CHR 0xE1, CHR 0x9A, CHR 0x80],
      [CHR 0xE2, CHR 0x80, CHR 0x80], [CHR 0xE2, CHR 0x80, CHR 0x81], [CHR 0xE2, CHR 0x80, CHR 0x82],
      [CHR 0xE2, CHR 0x80, CHR 0x83], [CHR 0xE2, CHR 0x80, CHR 0x84], [CHR 0xE2, CHR 0x80, CHR 0x85],
      [CHR 0xE2, CHR 0x80, CHR 0x86], [CHR 0xE2, CHR 0x80, CHR 0x87], [CHR 0xE2, CHR 0x80, CHR 0x88],
      [CHR 0xE2, CHR 0x80, CHR 0x89], [CHR 0xE2, CHR 0x80, CHR 0x8A], [CHR 0xE2, CHR 0x80, CHR 0xA8],
      [CHR 0xE2, CHR 0x80, CHR 0xA9], [CHR 0xE2, CHR 0x80, CHR 0xAF], [CHR 0xE2, CHR 0x81, CHR 0x9F],
      [CHR 0xE3, CHR 0x80, CHR 0x80]]"

definition leading :: "string list \<Rightarrow> string \<Rightarrow> string option" where
  "leading encs s = find (\<lambda>e. e \<noteq> [] \<and> take (length e) s = e) encs"

function trim_leading :: "string list \<Rightarrow> string \<Rightarrow> string" where
  "trim_leading encs s =
     (case leading encs s of None \<Rightarrow> s | Some e \<Rightarrow> trim_leading encs (drop (length e) s))"
  by pat_completeness auto

termination trim_leading
proof (relation "measure (\<lambda>(encs, s). length s)")
  show "wf (measure (\<lambda>(encs, s). length s))" by simp
next
  fix encs :: "string list" and s e :: string
  assume "leading encs s = Some e"
  then have e: "e \<noteq> []" and t: "take (length e) s = e"
    by (auto simp: leading_def find_Some_iff)
  from e t have "s \<noteq> []" by auto
  with e show "((encs, drop (length e) s), (encs, s)) \<in> measure (\<lambda>(encs, s). length s)"
    by (cases e) auto
qed

declare trim_leading.simps [simp del]

definition TrimLeft :: "string \<Rightarrow> string" where
  "TrimLeft s = trim_leading space_encodings s"

definition TrimRight :: "string \<Rightarrow> string" where
  "TrimRight s = rev (trim_leading (map rev space_encodings) (rev s))"

definition TrimSpace :: "string \<Rightarrow> string" where
  "TrimSpace s = TrimRight (TrimLeft s)"

text \<open>
  \<^verbatim>\<open>strings.ToLower\<close> maps \<^verbatim>\<open>A..Z\<close> to \<^verbatim>\<open>a..z\<close> when the string is ASCII only and
  otherwise maps \<^verbatim>\<open>unicode.ToLower\<close> over the runes; that Unicode table is not part of
  the repository and is the parameter \<open>mapLower\<close>.
\<close>

definition asciiLower :: "char \<Rightarrow> char" where
  "asciiLower c =
     (if (0x41::nat) \<le> of_char c \<and> of_char c \<le> (0x5A::nat)
      then char_of (of_char c + (0x20::nat)) else c)"

definition ToLower :: "(string \<Rightarrow> string) \<Rightarrow> string \<Rightarrow> string" where
  "ToLower mapLower s =
     (if list_all (\<lambda>c. of_char c < (0x80::nat)) s then map asciiLower s else mapLower s)"

section \<open>Model resolver (model\_resolver.go)\<close>

type_synonym ModelPurpose = string

definition PurposeImage :: ModelPurpose where
  "PurposeImage = ''image''"

definition PurposeChat :: ModelPurpose where
  "PurposeChat = ''chat''"

text \<open>
  A value of \<^verbatim>\<open>interface{}\<close> in the parameters map: the type assertion \<^verbatim>\<open>.(string)\<close>
  succeeds on a string and fails on everything else (an integer, or any other value:
  nil, a bool, a nested map).
\<close>

datatype go_value = StringVal string | IntVal int | OtherVal

text \<open>The stored provider configuration (\<^verbatim>\<open>model.ProviderConfig\<close>), by the fields the code uses.\<close>

record ProviderConfig =
  ProviderName :: string
  DisplayName :: string
  APIKey :: string
  APIBase :: string
  Enabled :: bool
  Models :: string

record ModelResolveOptions =
  opt_ProviderName :: string
  opt_Purpose :: ModelPurpose
  opt_RequestModel :: string
  opt_Params :: "(string \<rightharpoonup> go_value) option"
  opt_Config :: "ProviderConfig option"

record ModelResolveResult =
  ID :: string
  Source :: string

text \<open>One element of the decoded model list: the anonymous struct with \<^verbatim>\<open>ID\<close> and \<^verbatim>\<open>Default\<close>.\<close>

record parsed_item =
  item_ID :: string
  item_Default :: bool

text \<open>
  \<^verbatim>\<open>json.Unmarshal\<close> is the Go standard library; its outcome on the model list is the
  parameter \<open>unmarshal\<close>: \<open>None\<close> when it returns an error, the decoded slice otherwise.
\<close>

type_synonym unmarshal_models = "string \<Rightarrow> parsed_item list option"

definition pickModelFromModels :: "unmarshal_models \<Rightarrow> string \<Rightarrow> string" where
  "pickModelFromModels unmarshal models0 =
     (let models = TrimSpace models0 in
      if models = '''' then ''''
      else case unmarshal models of
        None \<Rightarrow> ''''
      | Some parsed \<Rightarrow>
          (case find (\<lambda>item. item_Default item \<and> TrimSpace (item_ID item) \<noteq> '''') parsed of
             Some item \<Rightarrow> item_ID item
           | None \<Rightarrow>
               (case find (\<lambda>item. TrimSpace (item_ID item) \<noteq> '''') parsed of
                  Some item \<Rightarrow> item_ID item
                | None \<Rightarrow> '''')))"

definition defaultModelForProvider :: "(string \<Rightarrow> string) \<Rightarrow> string \<Rightarrow> ModelPurpose \<Rightarrow> string" where
  "defaultModelForProvider mapLower providerName purpose =
     (let name = ToLower mapLower (TrimSpace providerName) in
      if purpose = PurposeChat \<or> name = ''openai-chat'' then ''gemini-3-flash-preview''
      else ''gemini-3-pro-image-preview'')"

text \<open>The type assertion \<^verbatim>\<open>opts.Params[key].(string)\<close>: the string and \<^verbatim>\<open>ok\<close>.\<close>

definition param_string :: "(string \<rightharpoonup> go_value) \<Rightarrow> string \<Rightarrow> string option" where
  "param_string params key = (case params key of Some (StringVal v) \<Rightarrow> Some v | _ \<Rightarrow> None)"

definition ResolveModelID ::
  "unmarshal_models \<Rightarrow> (string \<Rightarrow> string) \<Rightarrow> ModelResolveOptions \<Rightarrow> ModelResolveResult" where
  "ResolveModelID unmarshal mapLower opts =
     (if TrimSpace (opt_RequestModel opts) \<noteq> ''''
      then \<lparr>ID = TrimSpace (opt_RequestModel opts), Source = ''request''\<rparr>
      else case (case opt_Params opts of
                   None \<Rightarrow> None
                 | Some params \<Rightarrow>
                     (case (case param_string params ''model_id'' of
                              Some v \<Rightarrow> if TrimSpace v \<noteq> '''' then Some (TrimSpace v) else None
                            | None \<Rightarrow> None) of
                        Some t \<Rightarrow> Some t
                      | None \<Rightarrow>
                          (case param_string params ''model'' of
                             Some v \<Rightarrow> if TrimSpace v \<noteq> '''' then Some (TrimSpace v) else None
                           | None \<Rightarrow> None))) of
        Some t \<Rightarrow> \<lparr>ID = t, Source = ''params''\<rparr>
      | None \<Rightarrow>
          (case (case opt_Config opts of
                   None \<Rightarrow> None
                 | Some cfg \<Rightarrow>
                     (let picked = pickModelFromModels unmarshal (Models cfg) in
                      if picked \<noteq> '''' then Some picked else None)) of
             Some picked \<Rightarrow> \<lparr>ID = picked, Source = ''config''\<rparr>
           | None \<Rightarrow>
               (let dflt = defaultModelForProvider mapLower (opt_ProviderName opts) (opt_Purpose opts) in
                if dflt \<noteq> '''' then \<lparr>ID = dflt, Source = ''default''\<rparr>
                else \<lparr>ID = '''', Source = ''''\<rparr>)))"

subsection \<open>The precedence order, as the specification words it\<close>

text \<open>
  The declared models of a configuration: none when there is no configuration, when the
  list is blank, or when it does not decode.
\<close>

definition declared_models :: "unmarshal_models \<Rightarrow> ProviderConfig option \<Rightarrow> parsed_item list" where
  "declared_models unmarshal cfg =
     (case cfg of
        None \<Rightarrow> []
      | Some c \<Rightarrow>
          if TrimSpace (Models c) = '''' then []
          else (case unmarshal (TrimSpace (Models c)) of None \<Rightarrow> [] | Some parsed \<Rightarrow> parsed))"

text \<open>The string under a key of the parameters map; empty when absent or not a string.\<close>

definition param_value :: "(string \<rightharpoonup> go_value) option \<Rightarrow> string \<Rightarrow> string" where
  "param_value params key =
     (case params of
        None \<Rightarrow> ''''
      | Some m \<Rightarrow> (case m key of Some (StringVal v) \<Rightarrow> v | _ \<Rightarrow> ''''))"

text \<open>
  Every candidate value with the tier that supplies it, in precedence order: the request
  model, \<^verbatim>\<open>model_id\<close>, \<^verbatim>\<open>model\<close>, the declared entries flagged default, the declared
  entries in declared order, the hard-coded default.
\<close>

definition precedence_candidates ::
  "unmarshal_models \<Rightarrow> (string \<Rightarrow> string) \<Rightarrow> ModelResolveOptions \<Rightarrow> (string \<times> string) list" where
  "precedence_candidates unmarshal mapLower opts =
     [(opt_RequestModel opts, ''request''),
      (param_value (opt_Params opts) ''model_id'', ''params''),
      (param_value (opt_Params opts) ''model'', ''params'')]
     @ map (\<lambda>item. (item_ID item, ''config''))
         (filter item_Default (declared_models unmarshal (opt_Config opts))
          @ declared_models unmarshal (opt_Config opts))
     @ [(defaultModelForProvider mapLower (opt_ProviderName opts) (opt_Purpose opts), ''default'')]"

text \<open>The first candidate that is not empty after trimming.\<close>

definition first_nonblank :: "(string \<times> string) list \<Rightarrow> (string \<times> string) option" where
  "first_nonblank cands = find (\<lambda>(v, src). TrimSpace v \<noteq> '''') cands"

subsection \<open>Sample inputs\<close>

text \<open>
  What \<^verbatim>\<open>json.Unmarshal\<close> returns on the documents the examples use: two decodable model
  lists, \<^verbatim>\<open>null\<close> (a nil slice, no error), and an error on anything else that occurs
  below (\<^verbatim>\<open>{not json\<close>).
\<close>

definition sample_unmarshal :: unmarshal_models where
  \<open>sample_unmarshal s =
     (if s = ''[{"id":"m1"},{"id":"m2","default":true}]''
      then Some [\<lparr>item_ID = ''m1'', item_Default = False\<rparr>, \<lparr>item_ID = ''m2'', item_Default = True\<rparr>]
      else if s = ''[{"id":"m1"},{"id":"m2"}]''
      then Some [\<lparr>item_ID = ''m1'', item_Default = False\<rparr>, \<lparr>item_ID = ''m2'', item_Default = False\<rparr>]
      else if s = ''null'' then Some []
      else None)\<close>

definition sample_config :: "string \<Rightarrow> ProviderConfig" where
  "sample_config models =
     \<lparr>ProviderName = ''gemini'', DisplayName = ''gemini'', APIKey = ''k'', APIBase = '''',
      Enabled = True, Models = models\<rparr>"

definition sample_opts ::
  "string \<Rightarrow> (string \<rightharpoonup> go_value) option \<Rightarrow> ProviderConfig option \<Rightarrow> ModelResolveOptions" where
  "sample_opts request params cfg =
     \<lparr>opt_ProviderName = ''gemini'', opt_Purpose = PurposeImage, opt_RequestModel = request,
      opt_Params = params, opt_Config = cfg\<rparr>"

section \<open>Notification fan-out (websocket.go)\<close>

text \<open>
  A connection handle (\<^verbatim>\<open>*websocket.Conn\<close>) is identified by a number. The task record
  (\<^verbatim>\<open>model.Task\<close>) and the message carry the fields the handler reads and writes.
\<close>

type_synonym conn = nat

record Task =
  TaskID :: string
  Status :: string
  TotalCount :: int
  ErrorMessage :: string
  LocalPath :: string
  ThumbnailPath :: string
  ImageURL :: string
  ThumbnailURL :: string
  Width :: int
  Height :: int

record WSProgressMessage =
  msg_Type :: string
  msg_CompletedCount :: int
  msg_TotalCount :: int
  msg_LatestImage :: "(string \<times> go_value) list option"
  msg_Message :: string

text \<open>
  What happens on connections, in order: every \<^verbatim>\<open>conn.WriteJSON\<close> that is attempted
  and every \<^verbatim>\<open>conn.Close\<close>.
\<close>

datatype ws_event = WriteJSON conn WSProgressMessage | Close conn

text \<open>
  The state of \<^verbatim>\<open>taskSubscribers\<close>: the map from task id to its set of connections
  (the inner Go map has only \<^verbatim>\<open>true\<close> values, so it is its key set), and the events so
  far. The operations are modelled one at a time, each running to its end.
\<close>

record ws_state =
  subscribers :: "string \<rightharpoonup> conn set"
  events :: "ws_event list"

definition Subscribe :: "string \<Rightarrow> conn \<Rightarrow> ws_state \<Rightarrow> ws_state" where
  "Subscribe taskID c st =
     st\<lparr>subscribers := (subscribers st)
        (taskID \<mapsto> insert c (case subscribers st taskID of None \<Rightarrow> {} | Some conns \<Rightarrow> conns))\<rparr>"

definition Unsubscribe :: "string \<Rightarrow> conn \<Rightarrow> ws_state \<Rightarrow> ws_state" where
  "Unsubscribe taskID c st =
     (case subscribers st taskID of
        None \<Rightarrow> st
      | Some conns \<Rightarrow>
          if conns - {c} = {}
          then st\<lparr>subscribers := (subscribers st)(taskID := None)\<rparr>
          else st\<lparr>subscribers := (subscribers st)(taskID \<mapsto> conns - {c})\<rparr>)"

definition emit :: "ws_event \<Rightarrow> ws_state \<Rightarrow> ws_state" where
  "emit e st = st\<lparr>events := events st @ [e]\<rparr>"

text \<open>
  The loop of \<^verbatim>\<open>Broadcast\<close> over the connections in the order the range statement
  yields them; \<open>fails c\<close> says that the write to \<open>c\<close> returns an error in this call.
\<close>

fun deliver ::
  "(conn \<Rightarrow> bool) \<Rightarrow> string \<Rightarrow> WSProgressMessage \<Rightarrow> conn list \<Rightarrow> ws_state \<Rightarrow> ws_state" where
  "deliver fails taskID message [] st = st"
| "deliver fails taskID message (c # cs) st =
     deliver fails taskID message cs
       (if fails c
        then Unsubscribe taskID c (emit (Close c) (emit (WriteJSON c message) st))
        else emit (WriteJSON c message) st)"

text \<open>
  Go ranges over a map in an unspecified order. \<open>range_order conns order\<close> says that
  \<open>order\<close> is one enumeration of the connections read under the task id (none when the
  id has no entry); the loop deletes only the connection it is visiting, so it visits
  each of them once.
\<close>

definition range_order :: "conn set option \<Rightarrow> conn list \<Rightarrow> bool" where
  "range_order conns order =
     (distinct order \<and> set order = (case conns of None \<Rightarrow> {} | Some cs \<Rightarrow> cs))"

definition Broadcast ::
  "(conn \<Rightarrow> bool) \<Rightarrow> conn list \<Rightarrow> string \<Rightarrow> WSProgressMessage \<Rightarrow> ws_state \<Rightarrow> ws_state" where
  "Broadcast fails order taskID message st = deliver fails taskID message order st"

definition buildImageInfo :: "Task \<Rightarrow> (string \<times> go_value) list option" where
  "buildImageInfo task =
     (if LocalPath task = '''' \<and> ImageURL task = '''' then None
      else Some
        [(''id'', StringVal (TaskID task)),
         (''taskId'', StringVal (TaskID task)),
         (''filePath'', StringVal (LocalPath task)),
         (''thumbnailPath'', StringVal (ThumbnailPath task)),
         (''imageUrl'', StringVal (ImageURL task)),
         (''thumbnailUrl'', StringVal (ThumbnailURL task)),
         (''width'', IntVal (Width task)),
         (''height'', IntVal (Height task)),
         (''status'', StringVal ''success'')])"

definition complete_message :: "Task \<Rightarrow> WSProgressMessage" where
  "complete_message task =
     \<lparr>msg_Type = ''complete'', msg_CompletedCount = TotalCount task,
      msg_TotalCount = TotalCount task, msg_LatestImage = buildImageInfo task,
      msg_Message = ''''\<rparr>"

definition error_message :: "string \<Rightarrow> WSProgressMessage" where
  "error_message errMsg =
     \<lparr>msg_Type = ''error'', msg_CompletedCount = 0, msg_TotalCount = 0,
      msg_LatestImage = None, msg_Message = errMsg\<rparr>"

text \<open>
  A handler is one goroutine among others: between two of its steps the workers may
  broadcast and other handlers may subscribe or unsubscribe their own connections. An
  \<open>env_op\<close> is one such operation of another goroutine, run to its end.
\<close>

datatype env_op =
    EnvBroadcast "conn \<Rightarrow> bool" "conn list" string WSProgressMessage
  | EnvSubscribe string conn
  | EnvUnsubscribe string conn

fun run_op :: "env_op \<Rightarrow> ws_state \<Rightarrow> ws_state" where
  "run_op (EnvBroadcast fails order taskID message) st = Broadcast fails order taskID message st"
| "run_op (EnvSubscribe taskID c) st = Subscribe taskID c st"
| "run_op (EnvUnsubscribe taskID c) st = Unsubscribe taskID c st"

fun run_ops :: "env_op list \<Rightarrow> ws_state \<Rightarrow> ws_state" where
  "run_ops [] st = st"
| "run_ops (a # ops) st = run_ops ops (run_op a st)"





text \<open>
  How a run of \<^verbatim>\<open>GenerateWSHandler\<close> ends: with an HTTP error before the upgrade, with
  a failed upgrade, by returning after the terminal message, or by entering the polling
  loop (timers, pings and the reader goroutine), which is not modelled.
\<close>

datatype handler_result = HTTPError nat | UpgradeFailed | Returned | PollingLoop

text \<open>
  \<open>tasks\<close> is the task table read by \<^verbatim>\<open>First\<close> (\<open>None\<close>: no row, or a query error);
  \<open>upgraded\<close> is the connection \<^verbatim>\<open>upgrader.Upgrade\<close> returns (\<open>None\<close>: an error);
  \<open>st\<close> is the state in which the handler subscribes. The handler subscribes the
  connection first and writes the terminal message afterwards; the deferred calls run in
  reverse order at the return, \<^verbatim>\<open>Unsubscribe\<close>, then \<^verbatim>\<open>Close\<close>. What the other
  goroutines do in between is \<open>env1\<close> (after the subscription, before the write), \<open>env2\<close>
  (after the write, before the unsubscription) and \<open>env3\<close> (before the close).
\<close>

definition return_deferred ::
  "string \<Rightarrow> conn \<Rightarrow> env_op list \<Rightarrow> env_op list \<Rightarrow> ws_state \<Rightarrow> ws_state" where
  "return_deferred taskID c env2 env3 st =
     emit (Close c) (run_ops env3 (Unsubscribe taskID c (run_ops env2 st)))"

definition GenerateWSHandler ::
  "string \<Rightarrow> (string \<rightharpoonup> Task) \<Rightarrow> conn option \<Rightarrow> env_op list \<Rightarrow> env_op list \<Rightarrow>
   env_op list \<Rightarrow> ws_state \<Rightarrow> handler_result \<times> ws_state" where
  "GenerateWSHandler taskID tasks upgraded env1 env2 env3 st =
     (if taskID = '''' then (HTTPError 400, st)
      else case tasks taskID of
        None \<Rightarrow> (HTTPError 404, st)
      | Some task \<Rightarrow>
          (case upgraded of
             None \<Rightarrow> (UpgradeFailed, st)
           | Some c \<Rightarrow>
               (let st1 = run_ops env1 (Subscribe taskID c st) in
                if Status task = ''completed''
                then (Returned,
                      return_deferred taskID c env2 env3
                        (emit (WriteJSON c (complete_message task)) st1))
                else if Status task = ''failed''
                then (Returned,
                      return_deferred taskID c env2 env3
                        (emit (WriteJSON c (error_message (ErrorMessage task))) st1))
                else (PollingLoop, st1))))"

text \<open>The connections subscribed to a task id; none when the id has no entry.\<close>

definition subscribed :: "ws_state \<Rightarrow> string \<Rightarrow> conn set" where
  "subscribed st taskID = (case subscribers st taskID of None \<Rightarrow> {} | Some conns \<Rightarrow> conns)"

text \<open>The connections a list of events writes to.\<close>

fun written :: "ws_event list \<Rightarrow> conn list" where
  "written [] = []"
| "written (WriteJSON c m # es) = c # written es"
| "written (Close c # es) = written es"

text \<open>The events an operation adds: those of the state after it beyond those before it.\<close>

definition new_events :: "ws_state \<Rightarrow> ws_state \<Rightarrow> ws_event list" where
  "new_events st st' = drop (length (events st)) (events st')"

text \<open>
  Any number of later broadcasts to one task id, each with its own failures, range order
  and message; \<open>range_orders\<close> says that each order enumerates the subscriber set its
  call reads.
\<close>

type_synonym broadcast_call = "(conn \<Rightarrow> bool) \<times> conn list \<times> WSProgressMessage"

fun later_broadcasts :: "string \<Rightarrow> broadcast_call list \<Rightarrow> ws_state \<Rightarrow> ws_state" where
  "later_broadcasts taskID [] st = st"
| "later_broadcasts taskID ((fails, order, message) # calls) st =
     later_broadcasts taskID calls (Broadcast fails order taskID message st)"

fun range_orders :: "string \<Rightarrow> broadcast_call list \<Rightarrow> ws_state \<Rightarrow> bool" where
  "range_orders taskID [] st = True"
| "range_orders taskID ((fails, order, message) # calls) st =
     (range_order (subscribers st taskID) order \<and>
      range_orders taskID calls (Broadcast fails order taskID message st))"

text \<open>The invariant of the subscriber map: no task id is mapped to the empty set.\<close>

definition no_empty_entry :: "ws_state \<Rightarrow> bool" where
  "no_empty_entry st = ({} \<notin> ran (subscribers st))"

text \<open>
  The states the operations can produce from the empty subscriber map, one operation
  after the other, and a handler with whatever the other goroutines do between its steps;
  the handler's deferred \<^verbatim>\<open>Unsubscribe\<close> after the polling loop is the \<open>Unsubscribe\<close>
  step.
\<close>

inductive reachable :: "ws_state \<Rightarrow> bool" where
  initial: "reachable \<lparr>subscribers = Map.empty, events = []\<rparr>"
| subscribe: "reachable st \<Longrightarrow> reachable (Subscribe taskID c st)"
| unsubscribe: "reachable st \<Longrightarrow> reachable (Unsubscribe taskID c st)"
| broadcast: "reachable st \<Longrightarrow> range_order (subscribers st taskID) order \<Longrightarrow>
     reachable (Broadcast fails order taskID message st)"
| handler: "reachable st \<Longrightarrow>
     reachable (snd (GenerateWSHandler taskID tasks upgraded env1 env2 env3 st))"


definition sample_ws :: ws_state where
  "sample_ws = \<lparr>subscribers = [''t1'' \<mapsto> {1, 2}, ''t2'' \<mapsto> {3}], events = []\<rparr>"







section \<open>Provider registry (provider.go)\<close>

text \<open>
  One entry of \<^verbatim>\<open>config.GlobalConfig.Providers\<close>, the externally supplied configuration
  (config file or environment), by the fields \<^verbatim>\<open>InitProviders\<close> reads.
\<close>

record ConfigEntry =
  cfg_Enabled :: bool
  cfg_APIKey :: string
  cfg_APIBase :: string
  cfg_ModelID :: string

text \<open>
  \<^verbatim>\<open>json.Marshal\<close> is the Go standard library: \<open>marshal modelID\<close> is its outcome on the
  one-entry payload with \<^verbatim>\<open>id\<close> and \<^verbatim>\<open>name\<close> equal to \<open>modelID\<close> and \<^verbatim>\<open>default\<close> true,
  \<open>None\<close> when it returns an error.
\<close>

type_synonym marshal_models = "string \<Rightarrow> string option"

definition BuildModelsJSON :: "marshal_models \<Rightarrow> string \<Rightarrow> string \<Rightarrow> string \<Rightarrow> string" where
  "BuildModelsJSON marshal unused1 modelID0 unused2 =
     (let modelID = TrimSpace modelID0 in
      if modelID = '''' then ''''
      else case marshal modelID of None \<Rightarrow> '''' | Some data \<Rightarrow> data)"

text \<open>
  The table of stored provider configurations, in primary-key order. The queries and
  writes of \<^verbatim>\<open>InitProviders\<close> on it: \<^verbatim>\<open>Count\<close> and \<^verbatim>\<open>First\<close> by provider name,
  \<^verbatim>\<open>Create\<close>, and \<^verbatim>\<open>Updates\<close> of the row that \<^verbatim>\<open>First\<close> found with a map from column
  to value. Their errors are ignored by the code; only the final query's error is
  returned.
\<close>

type_synonym provider_table = "ProviderConfig list"

definition count_by_name :: "string \<Rightarrow> provider_table \<Rightarrow> nat" where
  "count_by_name name tbl = length (filter (\<lambda>row. ProviderName row = name) tbl)"

definition first_by_name :: "string \<Rightarrow> provider_table \<Rightarrow> ProviderConfig option" where
  "first_by_name name tbl = find (\<lambda>row. ProviderName row = name) tbl"

definition create :: "ProviderConfig \<Rightarrow> provider_table \<Rightarrow> provider_table" where
  "create row tbl = tbl @ [row]"

datatype column_value = TextValue string | BoolValue bool

fun set_column :: "string \<times> column_value \<Rightarrow> ProviderConfig \<Rightarrow> ProviderConfig" where
  "set_column (col, TextValue v) row =
     (if col = ''api_key'' then row\<lparr>APIKey := v\<rparr>
      else if col = ''api_base'' then row\<lparr>APIBase := v\<rparr>
      else if col = ''models'' then row\<lparr>Models := v\<rparr>
      else row)"
| "set_column (col, BoolValue b) row =
     (if col = ''enabled'' then row\<lparr>Enabled := b\<rparr> else row)"

fun update_first ::
  "(ProviderConfig \<Rightarrow> bool) \<Rightarrow> (ProviderConfig \<Rightarrow> ProviderConfig) \<Rightarrow> provider_table \<Rightarrow> provider_table" where
  "update_first P f [] = []"
| "update_first P f (row # rows) = (if P row then f row # rows else row # update_first P f rows)"

definition Updates :: "string \<Rightarrow> (string \<times> column_value) list \<Rightarrow> provider_table \<Rightarrow> provider_table" where
  "Updates name updateData tbl =
     update_first (\<lambda>row. ProviderName row = name) (fold set_column updateData) tbl"

text \<open>Step 0: every built-in provider name gets a row if it has none.\<close>

definition defaultProviders :: "string list" where
  "defaultProviders = [''gemini'', ''openai'']"

definition default_row :: "string \<Rightarrow> ProviderConfig" where
  "default_row name =
     \<lparr>ProviderName = name, DisplayName = name, APIKey = '''', APIBase = '''', Enabled = True,
      Models = ''''\<rparr>"

definition ensure_default :: "string \<Rightarrow> provider_table \<Rightarrow> provider_table" where
  "ensure_default name tbl = (if count_by_name name tbl = 0 then create (default_row name) tbl else tbl)"

definition seed_defaults :: "provider_table \<Rightarrow> provider_table" where
  "seed_defaults tbl = fold ensure_default defaultProviders tbl"

text \<open>Step 1, the body of the loop over the external configuration.\<close>

definition updateData :: "marshal_models \<Rightarrow> string \<Rightarrow> ConfigEntry \<Rightarrow> (string \<times> column_value) list" where
  "updateData marshal name cfg =
     [(''api_key'', TextValue (cfg_APIKey cfg)),
      (''api_base'', TextValue (cfg_APIBase cfg)),
      (''enabled'', BoolValue True)]
     @ (if cfg_ModelID cfg \<noteq> ''''
        then [(''models'', TextValue (BuildModelsJSON marshal name (cfg_ModelID cfg) ''''))]
        else [])"

definition sync_entry :: "marshal_models \<Rightarrow> string \<times> ConfigEntry \<Rightarrow> provider_table \<Rightarrow> provider_table" where
  "sync_entry marshal entry tbl =
     (let name = fst entry; cfg = snd entry in
      if \<not> cfg_Enabled cfg \<and> cfg_APIKey cfg = '''' then tbl
      else case first_by_name name tbl of
        None \<Rightarrow>
          create
            \<lparr>ProviderName = name, DisplayName = name, APIKey = cfg_APIKey cfg,
             APIBase = cfg_APIBase cfg, Enabled = True,
             Models = (if cfg_ModelID cfg \<noteq> ''''
                       then BuildModelsJSON marshal name (cfg_ModelID cfg) '''' else '''')\<rparr>
            tbl
      | Some dbCfg \<Rightarrow>
          if cfg_APIKey cfg \<noteq> '''' \<or> cfg_APIBase cfg \<noteq> '''' \<or> cfg_ModelID cfg \<noteq> ''''
          then Updates name (updateData marshal name cfg) tbl
          else tbl)"

text \<open>
  Step 3: the constructor chosen by provider name. \<^verbatim>\<open>NewGeminiProvider\<close> and
  \<^verbatim>\<open>NewOpenAIProvider\<close> are not among the sources and are parameters; \<open>None\<close> is the
  default branch of the switch (unknown name).
\<close>

type_synonym 'p constructor = "ProviderConfig \<Rightarrow> string + 'p"

definition construct ::
  "'p constructor \<Rightarrow> 'p constructor \<Rightarrow> ProviderConfig \<Rightarrow> (string + 'p) option" where
  "construct NewGeminiProvider NewOpenAIProvider cfg =
     (if ProviderName cfg = ''gemini'' then Some (NewGeminiProvider cfg)
      else if ProviderName cfg = ''openai'' then Some (NewOpenAIProvider cfg)
      else None)"

fun rebuild ::
  "'p constructor \<Rightarrow> 'p constructor \<Rightarrow> ProviderConfig list \<Rightarrow> (string \<rightharpoonup> 'p) \<Rightarrow> (string \<rightharpoonup> 'p)" where
  "rebuild NewGeminiProvider NewOpenAIProvider [] newRegistry = newRegistry"
| "rebuild NewGeminiProvider NewOpenAIProvider (cfg # cfgs) newRegistry =
     rebuild NewGeminiProvider NewOpenAIProvider cfgs
       (case construct NewGeminiProvider NewOpenAIProvider cfg of
          None \<Rightarrow> newRegistry
        | Some (Inl err) \<Rightarrow> newRegistry
        | Some (Inr p) \<Rightarrow> newRegistry(ProviderName cfg \<mapsto> p))"

text \<open>
  The state \<^verbatim>\<open>InitProviders\<close> works on: the stored table and the global
  \<^verbatim>\<open>Registry\<close>. \<open>query_error\<close> is the error of the query for the enabled rows, if any;
  \<open>providers\<close> is the external configuration in the order the range yields it. The
  result is the returned error and the new state.
\<close>

record 'p registry_state =
  table :: provider_table
  Registry :: "string \<rightharpoonup> 'p"

definition InitProviders ::
  "marshal_models \<Rightarrow> 'p constructor \<Rightarrow> 'p constructor \<Rightarrow> string option \<Rightarrow>
   (string \<times> ConfigEntry) list \<Rightarrow> 'p registry_state \<Rightarrow> string option \<times> 'p registry_state" where
  "InitProviders marshal NewGeminiProvider NewOpenAIProvider query_error providers st =
     (let seeded = seed_defaults (table st);
          synced = fold (sync_entry marshal) providers seeded
      in case query_error of
           Some err \<Rightarrow> (Some err, st\<lparr>table := synced\<rparr>)
         | None \<Rightarrow>
             (let finalConfigs = filter Enabled synced;
                  newRegistry = rebuild NewGeminiProvider NewOpenAIProvider finalConfigs Map.empty
              in (None, \<lparr>table = synced, Registry = newRegistry\<rparr>)))"

text \<open>Sample collaborators: a marshaller and a constructor that needs a credential.\<close>

definition sample_marshal :: marshal_models where
  \<open>sample_marshal modelID = Some (''[{"default":true,"id":"'' @ modelID @ ''","name":"'' @ modelID @ ''"}]'')\<close>

definition sample_constructor :: "string constructor" where
  "sample_constructor cfg =
     (if APIKey cfg = '''' then Inl ''api key is required'' else Inr (ProviderName cfg @ ''@'' @ APIBase cfg))"

definition sample_row :: "string \<Rightarrow> string \<Rightarrow> bool \<Rightarrow> string \<Rightarrow> ProviderConfig" where
  "sample_row name key enabled models =
     \<lparr>ProviderName = name, DisplayName = name, APIKey = key, APIBase = '''', Enabled = enabled,
      Models = models\<rparr>"

definition sample_registry_state :: "string registry_state" where
  "sample_registry_state =
     \<lparr>table = [sample_row ''gemini'' ''k1'' True '''', sample_row ''openai'' '''' True '''',
               sample_row ''custom'' ''k3'' True '''', sample_row ''other'' ''k4'' False ''''],
      Registry = [''openai'' \<mapsto> ''stale'']\<rparr>"

text \<open>A fresh installation: no stored row, nothing registered.\<close>

definition fresh_install :: "string registry_state" where
  "fresh_install = \<lparr>table = [], Registry = Map.empty\<rparr>"

text \<open>
  A store in which gemini was configured and then disabled, and an external
  configuration that enables gemini without a credential, base URL or model identifier.
\<close>

definition disabled_gemini :: "string registry_state" where
  "disabled_gemini =
     \<lparr>table = [\<lparr>ProviderName = ''gemini'', DisplayName = ''gemini'', APIKey = ''old-key'',
                 APIBase = ''https://old'', Enabled = False, Models = ''null''\<rparr>,
                \<lparr>ProviderName = ''openai'', DisplayName = ''openai'', APIKey = '''',
                 APIBase = '''', Enabled = False, Models = ''''\<rparr>],
      Registry = Map.empty\<rparr>"

definition enable_only :: ConfigEntry where
  "enable_only = \<lparr>cfg_Enabled = True, cfg_APIKey = '''', cfg_APIBase = '''', cfg_ModelID = ''''\<rparr>"

section \<open>Properties of the model resolver\<close>

subsection \<open>Facts about the library functions and the loops\<close>

lemma TrimSpace_empty: "TrimSpace '''' = ''''"
  by code_simp

lemma TrimSpace_flash: "TrimSpace ''gemini-3-flash-preview'' = ''gemini-3-flash-preview''"
  by code_simp

lemma TrimSpace_pro: "TrimSpace ''gemini-3-pro-image-preview'' = ''gemini-3-pro-image-preview''"
  by code_simp

lemma default_cases:
  "defaultModelForProvider ml n p = ''gemini-3-flash-preview'' \<or>
   defaultModelForProvider ml n p = ''gemini-3-pro-image-preview''"
  by (simp add: defaultModelForProvider_def Let_def)

lemma default_nonblank: "TrimSpace (defaultModelForProvider ml n p) \<noteq> ''''"
  using default_cases [of ml n p] by (auto simp: TrimSpace_flash TrimSpace_pro)

lemma default_trim: "TrimSpace (defaultModelForProvider ml n p) = defaultModelForProvider ml n p"
  using default_cases [of ml n p] by (auto simp: TrimSpace_flash TrimSpace_pro)

lemma default_nonempty: "defaultModelForProvider ml n p \<noteq> ''''"
  using default_cases [of ml n p] by auto

lemma find_filter_conj: "find P (filter Q xs) = find (\<lambda>x. Q x \<and> P x) xs"
  by (induction xs) auto

lemma find_append_case:
  "find P (xs @ ys) = (case find P xs of None \<Rightarrow> find P ys | Some x \<Rightarrow> Some x)"
  by (induction xs) auto

lemma find_map_comp: "find P (map f xs) = map_option f (find (\<lambda>x. P (f x)) xs)"
  by (induction xs) auto

lemma pick_as_find:
  "pickModelFromModels unm (Models c) =
     (case find (\<lambda>item. TrimSpace (item_ID item) \<noteq> '''')
             (filter item_Default (declared_models unm (Some c)) @ declared_models unm (Some c)) of
        None \<Rightarrow> '''' | Some item \<Rightarrow> item_ID item)"
  by (simp add: pickModelFromModels_def declared_models_def Let_def find_append_case
      find_filter_conj split: option.splits)

lemma pick_malformed:
  "unmarshal (TrimSpace ms) = None \<Longrightarrow> pickModelFromModels unmarshal ms = ''''"
  by (simp add: pickModelFromModels_def Let_def)

lemma params_tier:
  "(case P of
      None \<Rightarrow> None
    | Some params \<Rightarrow>
        (case (case param_string params ''model_id'' of
                 Some v \<Rightarrow> if TrimSpace v \<noteq> '''' then Some (TrimSpace v) else None
               | None \<Rightarrow> None) of
           Some t \<Rightarrow> Some t
         | None \<Rightarrow>
             (case param_string params ''model'' of
                Some v \<Rightarrow> if TrimSpace v \<noteq> '''' then Some (TrimSpace v) else None
              | None \<Rightarrow> None)))
   = (if TrimSpace (param_value P ''model_id'') \<noteq> ''''
      then Some (TrimSpace (param_value P ''model_id''))
      else if TrimSpace (param_value P ''model'') \<noteq> ''''
      then Some (TrimSpace (param_value P ''model''))
      else None)"
  by (simp add: param_string_def param_value_def TrimSpace_empty
      split: option.splits go_value.splits)

lemma config_tier:
  "(case C of
      None \<Rightarrow> None
    | Some cfg \<Rightarrow>
        (let picked = pickModelFromModels unm (Models cfg) in
         if picked \<noteq> '''' then Some picked else None))
   = map_option fst (find (\<lambda>(v, src). TrimSpace v \<noteq> '''')
       (map (\<lambda>item. (item_ID item, ''config''))
          (filter item_Default (declared_models unm C) @ declared_models unm C)))"
proof (cases C)
  case None
  then show ?thesis by (simp add: declared_models_def)
next
  case (Some c)
  show ?thesis
    unfolding Some option.case Let_def pick_as_find find_map_comp
    by (auto split: option.splits dest: find_Some_iff [THEN iffD1] simp: TrimSpace_empty)
qed

lemma resolve_default:
  assumes "TrimSpace (opt_RequestModel opts) = ''''"
    and "TrimSpace (param_value (opt_Params opts) ''model_id'') = ''''"
    and "TrimSpace (param_value (opt_Params opts) ''model'') = ''''"
    and "case opt_Config opts of
           None \<Rightarrow> True
         | Some cfg \<Rightarrow> pickModelFromModels unmarshal (Models cfg) = ''''"
  shows "ResolveModelID unmarshal mapLower opts =
     \<lparr>ID = defaultModelForProvider mapLower (opt_ProviderName opts) (opt_Purpose opts),
      Source = ''default''\<rparr>"
  using assms unfolding ResolveModelID_def params_tier
  by (auto simp: Let_def default_nonempty split: option.splits)

lemma resolve_config_cong:
  assumes "pickModelFromModels unmarshal (Models c1) = pickModelFromModels unmarshal (Models c2)"
  shows "ResolveModelID unmarshal mapLower (opts\<lparr>opt_Config := Some c1\<rparr>) =
         ResolveModelID unmarshal mapLower (opts\<lparr>opt_Config := Some c2\<rparr>)"
  using assms by (simp add: ResolveModelID_def Let_def cong: option.case_cong)

lemma resolve_config_none:
  assumes "pickModelFromModels unmarshal (Models c1) = ''''"
  shows "ResolveModelID unmarshal mapLower (opts\<lparr>opt_Config := Some c1\<rparr>) =
         ResolveModelID unmarshal mapLower (opts\<lparr>opt_Config := None\<rparr>)"
  using assms by (simp add: ResolveModelID_def Let_def cong: option.case_cong)

subsection \<open>Precedence\<close>

text \<open>
  C1. For every request model, parameters map, provider configuration and purpose,
  \<open>ResolveModelID\<close> returns the first candidate that is not empty after trimming, in the
  order: request model, \<^verbatim>\<open>model_id\<close> parameter, \<^verbatim>\<open>model\<close> parameter, declared entries
  flagged default, declared entries in declared order, hard-coded default; and it names
  the tier that supplied it. A lower tier is reached only when every candidate above it
  is blank. The value returned is the trimmed candidate, except that a declared entry is
  returned as it is stored.
\<close>

theorem ResolveModelID_precedence:
  "ResolveModelID unmarshal mapLower opts =
     (case first_nonblank (precedence_candidates unmarshal mapLower opts) of
        None \<Rightarrow> \<lparr>ID = '''', Source = ''''\<rparr>
      | Some (v, src) \<Rightarrow> \<lparr>ID = (if src = ''config'' then v else TrimSpace v), Source = src\<rparr>)"
  unfolding ResolveModelID_def params_tier config_tier first_nonblank_def precedence_candidates_def
  by (auto simp: find_append_case find_map_comp Let_def default_nonblank default_trim
      default_nonempty split: option.splits dest: find_Some_iff [THEN iffD1])

text \<open>
  The scenario of the specification, one tier knocked out at a time: the request model
  \<^verbatim>\<open>gpt-x\<close>, the parameter \<^verbatim>\<open>model: y\<close>, the declared entry flagged default, the first
  declared entry, the hard-coded default.
\<close>

lemma precedence_example_request:
  \<open>ResolveModelID sample_unmarshal id
     (sample_opts '' gpt-x '' (Some [''model'' \<mapsto> StringVal ''y''])
        (Some (sample_config ''[{"id":"m1"},{"id":"m2","default":true}]'')))
   = \<lparr>ID = ''gpt-x'', Source = ''request''\<rparr>\<close>
  by code_simp

lemma precedence_example_params:
  \<open>ResolveModelID sample_unmarshal id
     (sample_opts '''' (Some [''model'' \<mapsto> StringVal ''y'', ''model_id'' \<mapsto> OtherVal])
        (Some (sample_config ''[{"id":"m1"},{"id":"m2","default":true}]'')))
   = \<lparr>ID = ''y'', Source = ''params''\<rparr>\<close>
  by code_simp

lemma precedence_example_config_default:
  \<open>ResolveModelID sample_unmarshal id
     (sample_opts '''' (Some Map.empty)
        (Some (sample_config ''[{"id":"m1"},{"id":"m2","default":true}]'')))
   = \<lparr>ID = ''m2'', Source = ''config''\<rparr>\<close>
  by code_simp

lemma precedence_example_config_first:
  \<open>ResolveModelID sample_unmarshal id
     (sample_opts '''' None (Some (sample_config ''[{"id":"m1"},{"id":"m2"}]'')))
   = \<lparr>ID = ''m1'', Source = ''config''\<rparr>\<close>
  by code_simp

lemma precedence_example_default:
  \<open>ResolveModelID sample_unmarshal id (sample_opts '''' None (Some (sample_config ''null'')))
   = \<lparr>ID = ''gemini-3-pro-image-preview'', Source = ''default''\<rparr>\<close>
  by code_simp

subsection \<open>Malformed model lists\<close>

text \<open>
  C6. When the declared model list is not blank and does not decode, tier 4 yields
  nothing: \<open>pickModelFromModels\<close> returns the empty string, resolution gives the same
  result as with an empty model list or with no configuration at all, and with tiers 1 to
  3 blank it is the hard-coded default. The functions are total and have no error result.
\<close>

theorem malformed_models_fall_through:
  assumes "TrimSpace (Models cfg) \<noteq> ''''"
    and "unmarshal (TrimSpace (Models cfg)) = None"
    and "TrimSpace (opt_RequestModel opts) = ''''"
    and "TrimSpace (param_value (opt_Params opts) ''model_id'') = ''''"
    and "TrimSpace (param_value (opt_Params opts) ''model'') = ''''"
  shows "pickModelFromModels unmarshal (Models cfg) = '''' \<and>
     ResolveModelID unmarshal mapLower (opts\<lparr>opt_Config := Some cfg\<rparr>) =
       ResolveModelID unmarshal mapLower (opts\<lparr>opt_Config := Some (cfg\<lparr>Models := ''''\<rparr>)\<rparr>) \<and>
     ResolveModelID unmarshal mapLower (opts\<lparr>opt_Config := Some cfg\<rparr>) =
       ResolveModelID unmarshal mapLower (opts\<lparr>opt_Config := None\<rparr>) \<and>
     ResolveModelID unmarshal mapLower (opts\<lparr>opt_Config := Some cfg\<rparr>) =
       \<lparr>ID = defaultModelForProvider mapLower (opt_ProviderName opts) (opt_Purpose opts),
        Source = ''default''\<rparr>"
proof -
  have pick: "pickModelFromModels unmarshal (Models cfg) = ''''"
    using assms(2) by (rule pick_malformed)
  have blank: "pickModelFromModels unmarshal (Models (cfg\<lparr>Models := ''''\<rparr>)) = ''''"
    by (simp add: pickModelFromModels_def Let_def TrimSpace_empty)
  have same: "ResolveModelID unmarshal mapLower (opts\<lparr>opt_Config := Some cfg\<rparr>) =
      ResolveModelID unmarshal mapLower (opts\<lparr>opt_Config := Some (cfg\<lparr>Models := ''''\<rparr>)\<rparr>)"
    by (rule resolve_config_cong) (simp only: pick blank)
  have none: "ResolveModelID unmarshal mapLower (opts\<lparr>opt_Config := Some cfg\<rparr>) =
      ResolveModelID unmarshal mapLower (opts\<lparr>opt_Config := None\<rparr>)"
    using pick by (rule resolve_config_none)
  have dflt: "ResolveModelID unmarshal mapLower (opts\<lparr>opt_Config := Some cfg\<rparr>) =
      \<lparr>ID = defaultModelForProvider mapLower (opt_ProviderName (opts\<lparr>opt_Config := Some cfg\<rparr>))
              (opt_Purpose (opts\<lparr>opt_Config := Some cfg\<rparr>)),
       Source = ''default''\<rparr>"
    by (rule resolve_default) (simp_all add: assms pick)
  from pick same none dflt show ?thesis by simp
qed

theorem malformed_models_fall_through_witness:
  "TrimSpace (Models (sample_config ''{not json'')) \<noteq> '''' \<and>
   sample_unmarshal (TrimSpace (Models (sample_config ''{not json''))) = None \<and>
   pickModelFromModels sample_unmarshal (Models (sample_config ''{not json'')) = '''' \<and>
   ResolveModelID sample_unmarshal id
       (sample_opts '' '' (Some [''model'' \<mapsto> OtherVal]) (Some (sample_config ''{not json'')))
     = \<lparr>ID = ''gemini-3-pro-image-preview'', Source = ''default''\<rparr>"
proof -
  let ?cfg = "sample_config ''{not json''"
  let ?opts = "sample_opts '' '' (Some [''model'' \<mapsto> OtherVal]) None"
  have h1: "TrimSpace (Models ?cfg) \<noteq> ''''" by code_simp
  have h2: "sample_unmarshal (TrimSpace (Models ?cfg)) = None" by code_simp
  have h3: "TrimSpace (opt_RequestModel ?opts) = ''''" by code_simp
  have h4: "TrimSpace (param_value (opt_Params ?opts) ''model_id'') = ''''" by code_simp
  have h5: "TrimSpace (param_value (opt_Params ?opts) ''model'') = ''''" by code_simp
  have d: "defaultModelForProvider id (opt_ProviderName ?opts) (opt_Purpose ?opts)
      = ''gemini-3-pro-image-preview''" by code_simp
  have o: "?opts\<lparr>opt_Config := Some ?cfg\<rparr>
      = sample_opts '' '' (Some [''model'' \<mapsto> OtherVal]) (Some ?cfg)"
    by (simp add: sample_opts_def)
  note all = malformed_models_fall_through
    [where unmarshal = sample_unmarshal and cfg = ?cfg and opts = ?opts and mapLower = id,
      OF h1 h2 h3 h4 h5]
  from all have p: "pickModelFromModels sample_unmarshal (Models ?cfg) = ''''"
    by (rule conjunct1)
  from all [THEN conjunct2, THEN conjunct2, THEN conjunct2]
  have r: "ResolveModelID sample_unmarshal id (?opts\<lparr>opt_Config := Some ?cfg\<rparr>) =
      \<lparr>ID = defaultModelForProvider id (opt_ProviderName ?opts) (opt_Purpose ?opts),
       Source = ''default''\<rparr>"
    .
  from r have "ResolveModelID sample_unmarshal id
      (sample_opts '' '' (Some [''model'' \<mapsto> OtherVal]) (Some ?cfg))
      = \<lparr>ID = ''gemini-3-pro-image-preview'', Source = ''default''\<rparr>"
    unfolding o d .
  with h1 h2 p show ?thesis by blast
qed

subsection \<open>The hard-coded default\<close>

text \<open>
  C9. The hard-coded default is the flash-tier identifier when the purpose is chat or the
  provider name, trimmed and lower-cased, is \<^verbatim>\<open>openai-chat\<close>, and the pro-tier image
  identifier for every other purpose and name; it is what resolution returns, with source
  \<^verbatim>\<open>default\<close>, when tiers 1 to 4 are all empty.
\<close>

theorem tier5_default_by_purpose_and_name:
  assumes "TrimSpace (opt_RequestModel opts) = ''''"
    and "TrimSpace (param_value (opt_Params opts) ''model_id'') = ''''"
    and "TrimSpace (param_value (opt_Params opts) ''model'') = ''''"
    and "case opt_Config opts of
           None \<Rightarrow> True
         | Some cfg \<Rightarrow> pickModelFromModels unmarshal (Models cfg) = ''''"
  shows "ResolveModelID unmarshal mapLower opts =
     \<lparr>ID = (if opt_Purpose opts = PurposeChat \<or>
                 ToLower mapLower (TrimSpace (opt_ProviderName opts)) = ''openai-chat''
              then ''gemini-3-flash-preview'' else ''gemini-3-pro-image-preview''),
      Source = ''default''\<rparr>"
  using resolve_default [OF assms, of mapLower]
  by (simp add: defaultModelForProvider_def Let_def)

theorem tier5_default_by_purpose_and_name_witness:
  "ResolveModelID sample_unmarshal id
     \<lparr>opt_ProviderName = '' OpenAI-Chat '', opt_Purpose = PurposeImage, opt_RequestModel = '' '',
      opt_Params = None, opt_Config = Some (sample_config ''null'')\<rparr>
     = \<lparr>ID = ''gemini-3-flash-preview'', Source = ''default''\<rparr> \<and>
   ResolveModelID sample_unmarshal id
     \<lparr>opt_ProviderName = ''openai'', opt_Purpose = PurposeChat, opt_RequestModel = '''',
      opt_Params = None, opt_Config = None\<rparr>
     = \<lparr>ID = ''gemini-3-flash-preview'', Source = ''default''\<rparr> \<and>
   ResolveModelID sample_unmarshal id
     \<lparr>opt_ProviderName = ''openai'', opt_Purpose = ''video'', opt_RequestModel = '''',
      opt_Params = None, opt_Config = None\<rparr>
     = \<lparr>ID = ''gemini-3-pro-image-preview'', Source = ''default''\<rparr>"
proof -
  let ?a = "\<lparr>opt_ProviderName = '' OpenAI-Chat '', opt_Purpose = PurposeImage,
      opt_RequestModel = '' '', opt_Params = None, opt_Config = Some (sample_config ''null'')\<rparr>"
  let ?b = "\<lparr>opt_ProviderName = ''openai'', opt_Purpose = PurposeChat, opt_RequestModel = '''',
      opt_Params = None, opt_Config = None\<rparr>"
  let ?c = "\<lparr>opt_ProviderName = ''openai'', opt_Purpose = ''video'', opt_RequestModel = '''',
      opt_Params = None, opt_Config = None\<rparr>"
  have a1: "TrimSpace (opt_RequestModel ?a) = ''''" by code_simp
  have a2: "TrimSpace (param_value (opt_Params ?a) ''model_id'') = ''''" by code_simp
  have a3: "TrimSpace (param_value (opt_Params ?a) ''model'') = ''''" by code_simp
  have a4: "case opt_Config ?a of None \<Rightarrow> True
      | Some cfg \<Rightarrow> pickModelFromModels sample_unmarshal (Models cfg) = ''''" by code_simp
  have an: "ToLower id (TrimSpace (opt_ProviderName ?a)) = ''openai-chat''" by code_simp
  have b1: "TrimSpace (opt_RequestModel ?b) = ''''" by code_simp
  have b2: "TrimSpace (param_value (opt_Params ?b) ''model_id'') = ''''" by code_simp
  have b3: "TrimSpace (param_value (opt_Params ?b) ''model'') = ''''" by code_simp
  have b4: "case opt_Config ?b of None \<Rightarrow> True
      | Some cfg \<Rightarrow> pickModelFromModels sample_unmarshal (Models cfg) = ''''" by code_simp
  have c1: "TrimSpace (opt_RequestModel ?c) = ''''" by code_simp
  have c2: "TrimSpace (param_value (opt_Params ?c) ''model_id'') = ''''" by code_simp
  have c3: "TrimSpace (param_value (opt_Params ?c) ''model'') = ''''" by code_simp
  have c4: "case opt_Config ?c of None \<Rightarrow> True
      | Some cfg \<Rightarrow> pickModelFromModels sample_unmarshal (Models cfg) = ''''" by code_simp
  have cn: "ToLower id (TrimSpace (opt_ProviderName ?c)) \<noteq> ''openai-chat''" by code_simp
  have cp: "opt_Purpose ?c \<noteq> PurposeChat" by code_simp
  have ra: "ResolveModelID sample_unmarshal id ?a
      = \<lparr>ID = ''gemini-3-flash-preview'', Source = ''default''\<rparr>"
    using tier5_default_by_purpose_and_name [where unmarshal = sample_unmarshal and mapLower = id, OF a1 a2 a3 a4] an by simp
  have rb: "ResolveModelID sample_unmarshal id ?b
      = \<lparr>ID = ''gemini-3-flash-preview'', Source = ''default''\<rparr>"
    using tier5_default_by_purpose_and_name [where unmarshal = sample_unmarshal and mapLower = id, OF b1 b2 b3 b4] by simp
  have rc: "ResolveModelID sample_unmarshal id ?c
      = \<lparr>ID = ''gemini-3-pro-image-preview'', Source = ''default''\<rparr>"
    using tier5_default_by_purpose_and_name [where unmarshal = sample_unmarshal and mapLower = id, OF c1 c2 c3 c4] cn cp by simp
  from ra rb rc show ?thesis by simp
qed

subsection \<open>Resolution never comes back empty\<close>

text \<open>
  C10. For every provider name, purpose, request model, parameters map and provider
  configuration, and whatever the decoder returns, the resolved model identifier is not
  empty (nor is the source tier): the empty, unresolved result is unreachable.
\<close>

theorem ResolveModelID_never_unresolved:
  "ID (ResolveModelID unmarshal mapLower opts) \<noteq> '''' \<and>
   Source (ResolveModelID unmarshal mapLower opts) \<noteq> ''''"
  by (simp add: ResolveModelID_def Let_def default_nonempty split: option.splits)

section \<open>Properties of the notification fan-out\<close>

subsection \<open>What each operation does to the subscriber sets and the events\<close>


lemma subscribed_Unsubscribe:
  "subscribed (Unsubscribe taskID c st) t =
     (if t = taskID then subscribed st taskID - {c} else subscribed st t)"
  by (auto simp: subscribed_def Unsubscribe_def split: option.splits)

lemma subscribed_emit: "subscribed (emit e st) t = subscribed st t"
  by (simp add: subscribed_def emit_def)


lemma events_Unsubscribe: "events (Unsubscribe taskID c st) = events st"
  by (simp add: Unsubscribe_def split: option.splits)

lemma events_emit: "events (emit e st) = events st @ [e]"
  by (simp add: emit_def)

lemma subscribed_deliver:
  "subscribed (deliver fails taskID message cs st) t =
     (if t = taskID then subscribed st taskID - {c \<in> set cs. fails c} else subscribed st t)"
  by (induction cs arbitrary: st)
    (auto simp: subscribed_Unsubscribe subscribed_emit)

lemma events_deliver:
  "events (deliver fails taskID message cs st) =
     events st @ concat (map (\<lambda>c. if fails c then [WriteJSON c message, Close c]
                                   else [WriteJSON c message]) cs)"
  by (induction cs arbitrary: st) (simp_all add: events_Unsubscribe events_emit)

lemma written_append: "written (xs @ ys) = written xs @ written ys"
  by (induction xs rule: written.induct) simp_all

lemma written_attempts:
  "written (concat (map (\<lambda>c. if fails c then [WriteJSON c message, Close c]
                              else [WriteJSON c message]) cs)) = cs"
  by (induction cs) simp_all

lemma new_events_deliver:
  "new_events st (deliver fails taskID message cs st) =
     concat (map (\<lambda>c. if fails c then [WriteJSON c message, Close c]
                       else [WriteJSON c message]) cs)"
  by (simp add: new_events_def events_deliver)

lemma range_order_subscribed: "range_order (subscribers st t) order \<Longrightarrow> set order = subscribed st t"
  by (simp add: range_order_def subscribed_def)

lemma no_empty_entry_iff:
  "no_empty_entry st \<longleftrightarrow> (\<forall>t conns. subscribers st t = Some conns \<longrightarrow> conns \<noteq> {})"
  by (auto simp: no_empty_entry_def ran_def)

lemma inv_Subscribe: "no_empty_entry st \<Longrightarrow> no_empty_entry (Subscribe taskID c st)"
  by (auto simp: no_empty_entry_iff Subscribe_def)

lemma inv_Unsubscribe: "no_empty_entry st \<Longrightarrow> no_empty_entry (Unsubscribe taskID c st)"
  by (auto simp: no_empty_entry_iff Unsubscribe_def split: option.splits if_splits)

lemma inv_emit: "no_empty_entry (emit e st) = no_empty_entry st"
  by (simp add: no_empty_entry_def emit_def)

lemma inv_deliver:
  "no_empty_entry st \<Longrightarrow> no_empty_entry (deliver fails taskID message cs st)"
  by (induction cs arbitrary: st) (simp_all add: inv_Unsubscribe inv_emit)

lemma later_broadcasts_events:
  "\<exists>es. events (later_broadcasts taskID calls st) = events st @ es \<and>
     (range_orders taskID calls st \<longrightarrow> set (written es) \<subseteq> subscribed st taskID)"
proof (induction calls arbitrary: st)
  case Nil
  show ?case by simp
next
  case (Cons call calls)
  obtain fails order message where call: "call = (fails, order, message)"
    by (cases call)
  let ?st1 = "Broadcast fails order taskID message st"
  from Cons.IH [of ?st1] obtain es where
    es: "events (later_broadcasts taskID calls ?st1) = events ?st1 @ es"
    and w: "range_orders taskID calls ?st1 \<longrightarrow> set (written es) \<subseteq> subscribed ?st1 taskID"
    by blast
  let ?new = "concat (map (\<lambda>c. if fails c then [WriteJSON c message, Close c]
                                  else [WriteJSON c message]) order)"
  have e1: "events ?st1 = events st @ ?new"
    by (simp add: Broadcast_def events_deliver)
  have sub: "subscribed ?st1 taskID \<subseteq> subscribed st taskID"
    by (auto simp: Broadcast_def subscribed_deliver)
  have "events (later_broadcasts taskID (call # calls) st) = events st @ (?new @ es)"
    by (simp add: call es e1)
  moreover have "range_orders taskID (call # calls) st \<longrightarrow>
      set (written (?new @ es)) \<subseteq> subscribed st taskID"
    using w sub by (auto simp: call written_append written_attempts dest: range_order_subscribed)
  ultimately show ?case by blast
qed

lemma later_broadcasts_written:
  assumes "range_orders taskID calls st"
  shows "set (written (new_events st (later_broadcasts taskID calls st))) \<subseteq> subscribed st taskID"
  using later_broadcasts_events [of taskID calls st] assms
  by (auto simp: new_events_def)

subsection \<open>Broadcast prunes the connections whose write fails\<close>

text \<open>
  C3. A broadcast to a task id writes once to every connection subscribed to it, in the
  order of the range; a connection whose write fails is closed right after that write and
  is no longer in the task's subscriber set when the call returns, and the connections
  whose write succeeds are exactly those that remain. Later broadcasts to the task id,
  however many and whatever their messages and failures, write to remaining connections
  only (no connection is subscribed in between).
\<close>

theorem Broadcast_prunes_failed_handles:
  assumes "range_order (subscribers st taskID) order"
  shows "subscribed (Broadcast fails order taskID message st) taskID
           = {c \<in> subscribed st taskID. \<not> fails c} \<and>
         new_events st (Broadcast fails order taskID message st)
           = concat (map (\<lambda>c. if fails c then [WriteJSON c message, Close c]
                               else [WriteJSON c message]) order) \<and>
         (range_orders taskID calls (Broadcast fails order taskID message st) \<longrightarrow>
            set (written (new_events (Broadcast fails order taskID message st)
                   (later_broadcasts taskID calls (Broadcast fails order taskID message st))))
              \<subseteq> {c \<in> subscribed st taskID. \<not> fails c})"
proof -
  let ?st' = "Broadcast fails order taskID message st"
  have a: "subscribed ?st' taskID = {c \<in> subscribed st taskID. \<not> fails c}"
    using range_order_subscribed [OF assms]
    by (auto simp: Broadcast_def subscribed_deliver)
  have b: "new_events st ?st'
      = concat (map (\<lambda>c. if fails c then [WriteJSON c message, Close c]
                          else [WriteJSON c message]) order)"
    by (simp add: Broadcast_def new_events_deliver)
  have c: "range_orders taskID calls ?st' \<longrightarrow>
      set (written (new_events ?st' (later_broadcasts taskID calls ?st')))
        \<subseteq> {c \<in> subscribed st taskID. \<not> fails c}"
    using later_broadcasts_written [of taskID calls ?st'] unfolding a by blast
  from a b c show ?thesis by blast
qed

theorem Broadcast_prunes_failed_handles_witness:
  "range_order (subscribers sample_ws ''t1'') [2, 1] \<and>
   subscribed (Broadcast (\<lambda>c. c = 1) [2, 1] ''t1'' (error_message ''x'') sample_ws) ''t1'' = {2} \<and>
   new_events sample_ws (Broadcast (\<lambda>c. c = 1) [2, 1] ''t1'' (error_message ''x'') sample_ws)
     = [WriteJSON 2 (error_message ''x''), WriteJSON 1 (error_message ''x''), Close 1]"
proof -
  have h: "range_order (subscribers sample_ws ''t1'') [2, 1]"
    by (auto simp: range_order_def sample_ws_def)
  have s: "{c \<in> subscribed sample_ws ''t1''. \<not> c = 1} = {2}"
    by (auto simp: subscribed_def sample_ws_def)
  note all = Broadcast_prunes_failed_handles
    [where fails = "\<lambda>c. c = 1" and message = "error_message ''x''", OF h]
  from all [THEN conjunct1]
  have a: "subscribed (Broadcast (\<lambda>c. c = 1) [2, 1] ''t1'' (error_message ''x'') sample_ws) ''t1''
      = {2}"
    unfolding s .
  from all [THEN conjunct2, THEN conjunct1]
  have b: "new_events sample_ws
      (Broadcast (\<lambda>c. c = 1) [2, 1] ''t1'' (error_message ''x'') sample_ws)
      = [WriteJSON 2 (error_message ''x''), WriteJSON 1 (error_message ''x''), Close 1]"
    by simp
  from h a b show ?thesis by blast
qed

subsection \<open>No task id is left with an empty subscriber set\<close>

text \<open>
  C8. If no task id of the subscriber map is mapped to the empty set, the same holds
  after \<open>Subscribe\<close>, after \<open>Unsubscribe\<close> and after \<open>Broadcast\<close> with its unsubscriptions,
  whatever the order and the failures; and when \<open>Unsubscribe\<close> removes the last
  connection of a task id, the id has no entry afterwards.
\<close>

theorem subscriber_map_has_no_empty_entry:
  assumes "no_empty_entry st"
  shows "no_empty_entry (Subscribe taskID c st) \<and>
         no_empty_entry (Unsubscribe taskID c st) \<and>
         no_empty_entry (Broadcast fails order taskID message st) \<and>
         (subscribed st taskID - {c} = {} \<longrightarrow> subscribers (Unsubscribe taskID c st) taskID = None)"
proof -
  have "subscribed st taskID - {c} = {} \<longrightarrow> subscribers (Unsubscribe taskID c st) taskID = None"
    by (simp add: subscribed_def Unsubscribe_def split: option.splits)
  with assms show ?thesis
    by (simp add: inv_Subscribe inv_Unsubscribe inv_deliver Broadcast_def)
qed

theorem subscriber_map_has_no_empty_entry_witness:
  "no_empty_entry sample_ws \<and>
   no_empty_entry (Subscribe ''t3'' 4 sample_ws) \<and>
   no_empty_entry (Unsubscribe ''t2'' 3 sample_ws) \<and>
   no_empty_entry (Broadcast (\<lambda>c. True) [1, 2] ''t1'' (error_message ''x'') sample_ws) \<and>
   subscribers (Unsubscribe ''t2'' 3 sample_ws) ''t2'' = None"
proof -
  have h: "no_empty_entry sample_ws"
    by (auto simp: no_empty_entry_iff sample_ws_def split: if_splits)
  have e: "subscribed sample_ws ''t2'' - {3} = {}"
    by (simp add: subscribed_def sample_ws_def)
  from subscriber_map_has_no_empty_entry [OF h, of "''t3''" 4]
  have a: "no_empty_entry (Subscribe ''t3'' 4 sample_ws)" by (rule conjunct1)
  note u = subscriber_map_has_no_empty_entry [OF h, of "''t2''" 3]
  from u have b: "no_empty_entry (Unsubscribe ''t2'' 3 sample_ws)" by blast
  from u e have c: "subscribers (Unsubscribe ''t2'' 3 sample_ws) ''t2'' = None" by blast
  from subscriber_map_has_no_empty_entry
    [OF h, where fails = "\<lambda>c. True" and order = "[1, 2]" and taskID = "''t1''"
      and message = "error_message ''x''"]
  have d: "no_empty_entry (Broadcast (\<lambda>c. True) [1, 2] ''t1'' (error_message ''x'') sample_ws)"
    by blast
  from h a b c d show ?thesis by blast
qed

text \<open>
  The subscriber map starts empty, so the invariant holds in every state the operations
  and the handler can produce.
\<close>

lemma no_empty_entry_initially: "no_empty_entry \<lparr>subscribers = Map.empty, events = []\<rparr>"
  by (simp add: no_empty_entry_def)

lemma inv_run_op: "no_empty_entry st \<Longrightarrow> no_empty_entry (run_op a st)"
  by (cases a) (simp_all add: Broadcast_def inv_deliver inv_Subscribe inv_Unsubscribe)

lemma inv_run_ops: "no_empty_entry st \<Longrightarrow> no_empty_entry (run_ops ops st)"
  by (induction ops arbitrary: st) (simp_all add: inv_run_op)

lemma inv_GenerateWSHandler:
  "no_empty_entry st \<Longrightarrow>
   no_empty_entry (snd (GenerateWSHandler taskID tasks upgraded env1 env2 env3 st))"
  by (simp add: GenerateWSHandler_def return_deferred_def Let_def inv_emit inv_Unsubscribe
      inv_Subscribe inv_run_ops split: option.splits)

lemma reachable_no_empty_entry: "reachable st \<Longrightarrow> no_empty_entry st"
proof (induction rule: reachable.induct)
  case initial
  show ?case by (rule no_empty_entry_initially)
next
  case (subscribe st taskID c)
  then show ?case by (simp add: inv_Subscribe)
next
  case (unsubscribe st taskID c)
  then show ?case by (simp add: inv_Unsubscribe)
next
  case (broadcast st taskID order fails message)
  then show ?case by (simp add: Broadcast_def inv_deliver)
next
  case (handler st taskID tasks upgraded env1 env2 env3)
  then show ?case by (simp add: inv_GenerateWSHandler)
qed

subsection \<open>Subscribing to a task that is already terminal\<close>























lemma subscribed_cong:
  assumes "subscribers st = subscribers st2"
  shows "subscribed st t = subscribed st2 t"
  using assms by (simp add: subscribed_def)







section \<open>Properties of the provider registry\<close>

subsection \<open>Facts about the table operations and the rebuild loop\<close>

lemma seed_defaults_eq:
  "seed_defaults tbl =
     tbl @ map default_row (filter (\<lambda>name. count_by_name name tbl = 0) defaultProviders)"
  by (simp add: seed_defaults_def defaultProviders_def ensure_default_def create_def
      count_by_name_def default_row_def)

lemma table_InitProviders:
  "table (snd (InitProviders marshal g o' qerr providers st))
     = fold (sync_entry marshal) providers (seed_defaults (table st))"
  by (simp add: InitProviders_def Let_def split: option.splits)

lemma rebuild_dom:
  "dom (rebuild g o' cfgs reg) =
     dom reg \<union> {ProviderName cfg | cfg. cfg \<in> set cfgs \<and> (\<exists>p. construct g o' cfg = Some (Inr p))}"
  by (induction cfgs arbitrary: reg) (auto split: option.splits sum.splits)

lemma rebuild_absent:
  "name \<notin> ProviderName ` set cfgs \<Longrightarrow> rebuild g o' cfgs reg name = reg name"
  by (induction cfgs arbitrary: reg) (auto split: option.splits sum.splits)

lemma rebuild_distinct:
  "distinct (map ProviderName cfgs) \<Longrightarrow> cfg \<in> set cfgs \<Longrightarrow>
   construct g o' cfg = Some (Inr p) \<Longrightarrow>
   rebuild g o' cfgs reg (ProviderName cfg) = Some p"
  by (induction cfgs arbitrary: reg) (auto split: option.splits sum.splits simp: rebuild_absent)

lemma names_as_image:
  "{ProviderName cfg | cfg. cfg \<in> set cfgs \<and> P cfg} = ProviderName ` set (filter P cfgs)"
  by auto

lemma length_update_first: "length (update_first P f tbl) = length tbl"
  by (induction tbl) auto

lemma Models_update_first:
  "(\<And>row. Models (f row) = Models row) \<Longrightarrow> map Models (update_first P f tbl) = map Models tbl"
  by (induction tbl) auto

lemma updateData_no_model:
  "cfg_ModelID cfg = '''' \<Longrightarrow>
   fold set_column (updateData marshal name cfg) =
     (\<lambda>row. row\<lparr>APIKey := cfg_APIKey cfg, APIBase := cfg_APIBase cfg, Enabled := True\<rparr>)"
  by (simp add: updateData_def fun_eq_iff)

text \<open>The update carries the \<^verbatim>\<open>models\<close> column exactly when the external model identifier is not empty.\<close>

lemma models_key_iff:
  "(''models'' \<in> fst ` set (updateData marshal name cfg)) = (cfg_ModelID cfg \<noteq> '''')"
  by (auto simp: updateData_def)

subsection \<open>A provider that fails to construct does not abort the reload\<close>

text \<open>
  C4. \<open>InitProviders\<close> returns the error of the query for the enabled rows and no other:
  when the query succeeds it returns no error, whatever the constructors do. The rebuilt
  registry then holds exactly the names of the enabled rows whose constructor exists and
  succeeds; rows with an unknown name or a failing constructor are left out. When the
  enabled rows have distinct names, each row that constructs successfully is registered
  with the provider built from it. When the query fails the registry is left as it was.
\<close>

theorem reload_skips_failing_providers:
  assumes "InitProviders marshal NewGeminiProvider NewOpenAIProvider query_error providers st
             = (err, st')"
  shows "err = query_error \<and>
     (query_error = None \<longrightarrow>
        dom (Registry st') =
          {ProviderName cfg | cfg. cfg \<in> set (filter Enabled (table st')) \<and>
             (\<exists>p. construct NewGeminiProvider NewOpenAIProvider cfg = Some (Inr p))} \<and>
        (distinct (map ProviderName (filter Enabled (table st'))) \<longrightarrow>
           (\<forall>cfg \<in> set (filter Enabled (table st')). \<forall>p.
              construct NewGeminiProvider NewOpenAIProvider cfg = Some (Inr p) \<longrightarrow>
              Registry st' (ProviderName cfg) = Some p))) \<and>
     (query_error \<noteq> None \<longrightarrow> Registry st' = Registry st)"
proof (cases query_error)
  case None
  with assms have e: "err = None"
    and t: "Registry st' =
      rebuild NewGeminiProvider NewOpenAIProvider (filter Enabled (table st')) Map.empty"
    by (auto simp: InitProviders_def Let_def)
  show ?thesis
    unfolding e t using None by (auto simp: rebuild_dom intro: rebuild_distinct)
next
  case (Some e)
  with assms show ?thesis by (auto simp: InitProviders_def Let_def)
qed

theorem reload_skips_failing_providers_witness:
  "fst (InitProviders sample_marshal sample_constructor sample_constructor None []
          sample_registry_state) = None \<and>
   Registry (snd (InitProviders sample_marshal sample_constructor sample_constructor None []
          sample_registry_state)) ''gemini'' = Some ''gemini@'' \<and>
   dom (Registry (snd (InitProviders sample_marshal sample_constructor sample_constructor None []
          sample_registry_state))) = {''gemini''}"
proof -
  let ?run = "InitProviders sample_marshal sample_constructor sample_constructor None []
      sample_registry_state"
  let ?g = "sample_row ''gemini'' ''k1'' True ''''"
  let ?o = "sample_row ''openai'' '''' True ''''"
  let ?c = "sample_row ''custom'' ''k3'' True ''''"
  have run: "?run = (fst ?run, snd ?run)" by simp
  have enabled: "filter Enabled (table (snd ?run)) = [?g, ?o, ?c]"
    by code_simp
  have d: "distinct (map ProviderName (filter Enabled (table (snd ?run))))"
    unfolding enabled by (simp add: sample_row_def)
  have m: "?g \<in> set (filter Enabled (table (snd ?run)))"
    unfolding enabled by simp
  have c: "construct sample_constructor sample_constructor ?g = Some (Inr ''gemini@'')"
    by code_simp
  have q1: "\<exists>p. construct sample_constructor sample_constructor ?g = Some (Inr p)"
    by (simp add: c)
  have q2: "\<not> (\<exists>p. construct sample_constructor sample_constructor ?o = Some (Inr p))"
    by (simp add: construct_def sample_constructor_def sample_row_def)
  have q3: "\<not> (\<exists>p. construct sample_constructor sample_constructor ?c = Some (Inr p))"
    by (simp add: construct_def sample_row_def)
  have f: "filter (\<lambda>cfg. \<exists>p. construct sample_constructor sample_constructor cfg = Some (Inr p))
      [?g, ?o, ?c] = [?g]"
    using q1 q2 q3 by (simp only: filter.simps if_True if_False)
  have n: "ProviderName ?g = ''gemini''"
    by (simp add: sample_row_def)
  have names: "{ProviderName cfg | cfg. cfg \<in> set (filter Enabled (table (snd ?run))) \<and>
      (\<exists>p. construct sample_constructor sample_constructor cfg = Some (Inr p))} = {''gemini''}"
    unfolding enabled names_as_image f by (simp only: list.set image_insert image_empty n)
  note all = reload_skips_failing_providers [OF run]
  from all have a: "fst ?run = None" by (rule conjunct1)
  from all [THEN conjunct2, THEN conjunct1] d m c
  have "Registry (snd ?run) (ProviderName ?g) = Some ''gemini@''"
    by blast
  then have b: "Registry (snd ?run) ''gemini'' = Some ''gemini@''"
    unfolding n .
  from all [THEN conjunct2, THEN conjunct1]
  have e: "dom (Registry (snd ?run)) = {''gemini''}"
    unfolding names by simp
  from a b e show ?thesis by blast
qed

subsection \<open>Seeding the built-in providers\<close>

text \<open>
  C5, as the code has it. The seeding step appends, for each built-in name (gemini, then
  openai) that has no stored row, one new row with that name, an empty credential, base
  URL and model list, and the enabled flag set to true; the rows already stored, among
  them those of a built-in name, are left as they are. The table after a reload is the
  seeded table with the external configuration merged in.
\<close>

theorem builtin_providers_seeded_enabled:
  "seed_defaults tbl =
     tbl @ map default_row (filter (\<lambda>name. count_by_name name tbl = 0) [''gemini'', ''openai'']) \<and>
   default_row name =
     \<lparr>ProviderName = name, DisplayName = name, APIKey = '''', APIBase = '''', Enabled = True,
      Models = ''''\<rparr> \<and>
   table (snd (InitProviders marshal NewGeminiProvider NewOpenAIProvider query_error providers st))
     = fold (sync_entry marshal) providers (seed_defaults (table st))"
  using seed_defaults_eq [of tbl]
  by (simp add: table_InitProviders defaultProviders_def default_row_def)

theorem builtin_providers_seeded_enabled_witness:
  "seed_defaults [sample_row ''gemini'' ''k1'' False ''null'']
     = [sample_row ''gemini'' ''k1'' False ''null'',
        \<lparr>ProviderName = ''openai'', DisplayName = ''openai'', APIKey = '''', APIBase = '''',
         Enabled = True, Models = ''''\<rparr>]"
proof -
  have f: "filter (\<lambda>name. count_by_name name [sample_row ''gemini'' ''k1'' False ''null''] = 0)
      [''gemini'', ''openai''] = [''openai'']"
    by (simp add: count_by_name_def sample_row_def)
  note all = builtin_providers_seeded_enabled
    [where tbl = "[sample_row ''gemini'' ''k1'' False ''null'']" and name = "''openai''"]
  from all [THEN conjunct1] all [THEN conjunct2, THEN conjunct1]
  show ?thesis unfolding f by simp
qed

text \<open>
  The claim as worded (a missing built-in row is created with the enabled flag false)
  fails on a fresh installation: both rows are created enabled.
\<close>

theorem builtin_providers_seeded_disabled_counterexample:
  "table (snd (InitProviders sample_marshal sample_constructor sample_constructor None []
      fresh_install))
   = [\<lparr>ProviderName = ''gemini'', DisplayName = ''gemini'', APIKey = '''', APIBase = '''',
       Enabled = True, Models = ''''\<rparr>,
      \<lparr>ProviderName = ''openai'', DisplayName = ''openai'', APIKey = '''', APIBase = '''',
       Enabled = True, Models = ''''\<rparr>]"
  by code_simp

subsection \<open>An empty external model identifier keeps the stored model list\<close>

text \<open>
  C7, as the code has it. Let the model identifier of an external entry be empty. Then
  merging the entry changes the model list of no stored row, and the update it builds has
  the columns \<^verbatim>\<open>api_key\<close>, \<^verbatim>\<open>api_base\<close> and \<^verbatim>\<open>enabled\<close> only. If the entry is not
  skipped (it is enabled or has a credential), a row of its name is stored and its
  credential or its base URL is not empty, the first such row gets the entry's credential
  and base URL and is enabled. If a row is stored and both credential and base URL are
  empty, nothing is updated. If the entry is not skipped and no row is stored, a row is
  created, enabled, with the entry's credential and base URL and an empty model list.
\<close>

theorem empty_model_id_keeps_stored_models:
  assumes "cfg_ModelID cfg = ''''"
  shows "map Models (take (length tbl) (sync_entry marshal (name, cfg) tbl)) = map Models tbl \<and>
     map fst (updateData marshal name cfg) = [''api_key'', ''api_base'', ''enabled''] \<and>
     ((cfg_Enabled cfg \<or> cfg_APIKey cfg \<noteq> '''') \<and> first_by_name name tbl \<noteq> None \<and>
      (cfg_APIKey cfg \<noteq> '''' \<or> cfg_APIBase cfg \<noteq> '''') \<longrightarrow>
        sync_entry marshal (name, cfg) tbl =
          update_first (\<lambda>row. ProviderName row = name)
            (\<lambda>row. row\<lparr>APIKey := cfg_APIKey cfg, APIBase := cfg_APIBase cfg, Enabled := True\<rparr>) tbl) \<and>
     (first_by_name name tbl \<noteq> None \<and> cfg_APIKey cfg = '''' \<and> cfg_APIBase cfg = '''' \<longrightarrow>
        sync_entry marshal (name, cfg) tbl = tbl) \<and>
     ((cfg_Enabled cfg \<or> cfg_APIKey cfg \<noteq> '''') \<and> first_by_name name tbl = None \<longrightarrow>
        sync_entry marshal (name, cfg) tbl =
          tbl @ [\<lparr>ProviderName = name, DisplayName = name, APIKey = cfg_APIKey cfg,
                  APIBase = cfg_APIBase cfg, Enabled = True, Models = ''''\<rparr>])"
proof -
  have keys: "map fst (updateData marshal name cfg) = [''api_key'', ''api_base'', ''enabled'']"
    using assms by (simp add: updateData_def)
  have rest: "map Models (take (length tbl) (sync_entry marshal (name, cfg) tbl)) = map Models tbl \<and>
     ((cfg_Enabled cfg \<or> cfg_APIKey cfg \<noteq> '''') \<and> first_by_name name tbl \<noteq> None \<and>
      (cfg_APIKey cfg \<noteq> '''' \<or> cfg_APIBase cfg \<noteq> '''') \<longrightarrow>
        sync_entry marshal (name, cfg) tbl =
          update_first (\<lambda>row. ProviderName row = name)
            (\<lambda>row. row\<lparr>APIKey := cfg_APIKey cfg, APIBase := cfg_APIBase cfg, Enabled := True\<rparr>) tbl) \<and>
     (first_by_name name tbl \<noteq> None \<and> cfg_APIKey cfg = '''' \<and> cfg_APIBase cfg = '''' \<longrightarrow>
        sync_entry marshal (name, cfg) tbl = tbl) \<and>
     ((cfg_Enabled cfg \<or> cfg_APIKey cfg \<noteq> '''') \<and> first_by_name name tbl = None \<longrightarrow>
        sync_entry marshal (name, cfg) tbl =
          tbl @ [\<lparr>ProviderName = name, DisplayName = name, APIKey = cfg_APIKey cfg,
                  APIBase = cfg_APIBase cfg, Enabled = True, Models = ''''\<rparr>])"
    using assms
    by (auto simp: sync_entry_def Let_def Updates_def updateData_no_model create_def
        length_update_first Models_update_first split: option.splits)
  from keys rest show ?thesis by blast
qed

theorem empty_model_id_keeps_stored_models_witness:
  \<open>sync_entry sample_marshal
     (''gemini'', \<lparr>cfg_Enabled = False, cfg_APIKey = ''new-key'', cfg_APIBase = '''', cfg_ModelID = ''''\<rparr>)
     [sample_row ''gemini'' ''old-key'' False ''[{"id":"m1"},{"id":"m2"}]'']
   = [\<lparr>ProviderName = ''gemini'', DisplayName = ''gemini'', APIKey = ''new-key'', APIBase = '''',
       Enabled = True, Models = ''[{"id":"m1"},{"id":"m2"}]''\<rparr>]\<close>
proof -
  let ?cfg = "\<lparr>cfg_Enabled = False, cfg_APIKey = ''new-key'', cfg_APIBase = '''', cfg_ModelID = ''''\<rparr>"
  let ?tbl = \<open>[sample_row ''gemini'' ''old-key'' False ''[{"id":"m1"},{"id":"m2"}]'']\<close>
  have h: "cfg_ModelID ?cfg = ''''" by simp
  have p: "(cfg_Enabled ?cfg \<or> cfg_APIKey ?cfg \<noteq> '''') \<and> first_by_name ''gemini'' ?tbl \<noteq> None \<and>
      (cfg_APIKey ?cfg \<noteq> '''' \<or> cfg_APIBase ?cfg \<noteq> '''')"
    by (simp add: first_by_name_def sample_row_def)
  note all = empty_model_id_keeps_stored_models
    [where cfg = ?cfg and tbl = ?tbl and name = "''gemini''" and marshal = sample_marshal, OF h]
  from all [THEN conjunct2, THEN conjunct2, THEN conjunct1] p
  have "sync_entry sample_marshal (''gemini'', ?cfg) ?tbl =
      update_first (\<lambda>row. ProviderName row = ''gemini'')
        (\<lambda>row. row\<lparr>APIKey := cfg_APIKey ?cfg, APIBase := cfg_APIBase ?cfg, Enabled := True\<rparr>) ?tbl"
    by blast
  then show ?thesis by (simp add: sample_row_def)
qed

text \<open>
  The claim as worded (every processed entry with an empty model identifier updates the
  credential and base URL and forces enabled) fails for an entry that is enabled and
  otherwise empty: the stored row keeps its credential and base URL and stays disabled.
\<close>

theorem empty_entry_forces_enabled_counterexample:
  "table (snd (InitProviders sample_marshal sample_constructor sample_constructor None
      [(''gemini'', enable_only)] disabled_gemini))
   = [\<lparr>ProviderName = ''gemini'', DisplayName = ''gemini'', APIKey = ''old-key'',
       APIBase = ''https://old'', Enabled = False, Models = ''null''\<rparr>,
      \<lparr>ProviderName = ''openai'', DisplayName = ''openai'', APIKey = '''',
       APIBase = '''', Enabled = False, Models = ''''\<rparr>]"
  by code_simp

end
